theory Spec2Isabelle
  imports Main "HOL-Library.AList" "HOL-Library.Char_ord" "HOL-Library.List_Lexorder"
    "HOL-Library.Multiset" "HOL-Library.Word"
begin

section \<open>Data model\<close>

text \<open>
  The embedding follows \<^verbatim>\<open>statuspage/statuspage.py\<close>. The objects of the GitHub client
  library are records holding the attributes the module reads. A Python \<^verbatim>\<open>str\<close> used as a
  name, colour, login or state is a \<open>string\<close>; \<^verbatim>\<open>sorted\<close> on such names is \<open>sort\<close> under the
  lexicographic order on character codes. Python's \<^verbatim>\<open>None\<close> is \<open>None\<close> of an option type.
  An exception is the \<open>Inl\<close> branch of a sum; \<open>Unmodelled\<close> is not a Python exception
  but marks the one place where the embedding stops (a configuration value of a shape
  the specification does not give, see \<open>run_update\<close>).
\<close>

datatype py_error =
    KeyError
  | RuntimeError
  | FileNotFoundError
  | ValueError
  | TypeError
  | UnicodeEncodeError
  | UnicodeDecodeError
  | UnknownObjectException
  | GithubException nat
  | Unmodelled

record label =
  name :: string
  color :: string

record comment =
  comment_login :: string
  comment_created_at :: int
  comment_body :: string

record issue =
  title :: string
  body :: string
  state :: string
  created_at :: int
  login :: string
  labels :: "label list"
  comments :: "comment list"

text \<open>
  A value of the \<^verbatim>\<open>systems\<close> dictionary is the one-key dictionary \<^verbatim>\<open>{"status": ...}\<close>; its
  status is a string or \<^verbatim>\<open>None\<close>. An \<^verbatim>\<open>OrderedDict\<close> is an association list with distinct
  keys: assigning to an existing key keeps its position, a new key goes last
  (\<open>AList.update\<close>).
\<close>

record sysdata =
  status :: "string option"

type_synonym systems = "(string \<times> sysdata) list"

type_synonym panels = "(string option \<times> string list) list"

section \<open>Labels\<close>

text \<open>\<^verbatim>\<open>iter_systems\<close>: the names of the labels whose colour is the system colour, in order.\<close>

fun iter_systems :: "label list \<Rightarrow> string \<Rightarrow> string list" where
  "iter_systems [] system_color = []"
| "iter_systems (l # ls) system_color =
     (if color l = system_color then name l # iter_systems ls system_color
      else iter_systems ls system_color)"

text \<open>
  \<^verbatim>\<open>get_severity\<close>: the name of the first label that is a key of \<^verbatim>\<open>status_labels\<close>, else
  \<^verbatim>\<open>None\<close>.
\<close>

fun get_severity :: "label list \<Rightarrow> (string \<times> 'v) list \<Rightarrow> string option" where
  "get_severity [] status_labels = None"
| "get_severity (l # ls) status_labels =
     (if name l \<in> fst ` set status_labels then Some (name l)
      else get_severity ls status_labels)"

section \<open>System status\<close>

text \<open>
  \<^verbatim>\<open>get_systems\<close>. The first loop seeds the ordered dictionary from the sorted names of
  the repository's system labels. The second loop runs over the issues; for an open issue
  the inner loop assigns \<^verbatim>\<open>systems[affected_system]["status"] = severity\<close>, which raises
  \<^verbatim>\<open>KeyError\<close> when the key is not in the dictionary.
\<close>

fun get_systems_seed :: "systems \<Rightarrow> string list \<Rightarrow> systems" where
  "get_systems_seed systems [] = systems"
| "get_systems_seed systems (n # ns) =
     get_systems_seed (AList.update n \<lparr>status = Some ''operational''\<rparr> systems) ns"

fun get_systems_mark :: "systems \<Rightarrow> string option \<Rightarrow> string list \<Rightarrow> py_error + systems" where
  "get_systems_mark systems severity [] = Inr systems"
| "get_systems_mark systems severity (affected_system # rest) =
     (case map_of systems affected_system of
        None \<Rightarrow> Inl KeyError
      | Some data \<Rightarrow>
          get_systems_mark
            (AList.update affected_system (data\<lparr>status := severity\<rparr>) systems) severity rest)"

fun get_systems_loop ::
  "systems \<Rightarrow> issue list \<Rightarrow> string \<Rightarrow> (string \<times> 'v) list \<Rightarrow> py_error + systems" where
  "get_systems_loop systems [] system_color status_labels = Inr systems"
| "get_systems_loop systems (i # rest) system_color status_labels =
     (if state i = ''open'' then
        (case get_systems_mark systems (get_severity (labels i) status_labels)
                (iter_systems (labels i) system_color) of
           Inl e \<Rightarrow> Inl e
         | Inr systems' \<Rightarrow> get_systems_loop systems' rest system_color status_labels)
      else get_systems_loop systems rest system_color status_labels)"

definition get_systems ::
  "label list \<Rightarrow> issue list \<Rightarrow> string \<Rightarrow> (string \<times> 'v) list \<Rightarrow> py_error + systems" where
  "get_systems repo_labels issues system_color status_labels =
     get_systems_loop (get_systems_seed [] (sort (iter_systems repo_labels system_color)))
       issues system_color status_labels"

text \<open>
  The open issues that carry the system label \<open>s\<close>, in iteration order: the writes to the
  entry of \<open>s\<close>.
\<close>

definition writers :: "issue list \<Rightarrow> string \<Rightarrow> string \<Rightarrow> issue list" where
  "writers issues system_color s =
     filter (\<lambda>i. state i = ''open'' \<and> s \<in> set (iter_systems (labels i) system_color)) issues"

section \<open>Incidents\<close>

record update_entry =
  upd_created :: int
  upd_body :: string

record incident =
  created :: int
  inc_title :: string
  inc_systems :: "string list"
  severity :: "string option"
  closed :: bool
  inc_body :: string
  updates :: "update_entry list"







section \<open>Panels\<close>

text \<open>
  \<^verbatim>\<open>get_panels\<close>: the loop over \<^verbatim>\<open>systems.items()\<close>, with the panels built so far as the
  accumulator.
\<close>

fun get_panels_loop :: "panels \<Rightarrow> systems \<Rightarrow> panels" where
  "get_panels_loop panels [] = panels"
| "get_panels_loop panels ((system, data) # rest) =
     (if status data \<noteq> Some ''operational'' then
        (case map_of panels (status data) of
           Some systems_so_far \<Rightarrow>
             get_panels_loop
               (AList.update (status data) (systems_so_far @ [system]) panels) rest
         | None \<Rightarrow>
             get_panels_loop (AList.update (status data) [system] panels) rest)
      else get_panels_loop panels rest)"

definition get_panels :: "systems \<Rightarrow> panels" where
  "get_panels systems = get_panels_loop [] systems"

text \<open>
  The grouping in the words of the specification: the keys are the statuses other than
  "operational" in the order they are first seen, and each key holds, in order, the
  systems with that status.
\<close>

definition first_seen :: "'a list \<Rightarrow> 'a list" where
  "first_seen xs = rev (remdups (rev xs))"

definition panels_spec :: "systems \<Rightarrow> panels" where
  "panels_spec systems =
     map (\<lambda>st. (st, map fst (filter (\<lambda>p. status (snd p) = st) systems)))
       (first_seen (filter (\<lambda>st. st \<noteq> Some ''operational'') (map (\<lambda>p. status (snd p)) systems)))"

section \<open>Content equality\<close>

text \<open>
  \<^verbatim>\<open>is_same_content\<close> receives text or bytes. Text is a list of code points, bytes a list
  of 8-bit words. With \<^verbatim>\<open>PY3\<close> true, \<open>Str\<close> is Python 3's \<^verbatim>\<open>str\<close> and \<open>Bytes\<close> its
  \<^verbatim>\<open>bytes\<close>; with \<^verbatim>\<open>PY3\<close> false, \<open>Str\<close> is Python 2's \<^verbatim>\<open>unicode\<close> and \<open>Bytes\<close> its
  \<^verbatim>\<open>str\<close>.
\<close>

type_synonym byte = "8 word"

datatype content = Str "nat list" | Bytes "byte list"

definition utf8_char :: "nat \<Rightarrow> byte list" where
  "utf8_char c =
     (if c < 0x80 then [of_nat c]
      else if c < 0x800 then [of_nat (0xC0 + c div 0x40), of_nat (0x80 + c mod 0x40)]
      else if c < 0x10000 then
        [of_nat (0xE0 + c div 0x1000), of_nat (0x80 + c div 0x40 mod 0x40),
         of_nat (0x80 + c mod 0x40)]
      else
        [of_nat (0xF0 + c div 0x40000), of_nat (0x80 + c div 0x1000 mod 0x40),
         of_nat (0x80 + c div 0x40 mod 0x40), of_nat (0x80 + c mod 0x40)])"

definition is_surrogate :: "nat \<Rightarrow> bool" where
  "is_surrogate c = (0xD800 \<le> c \<and> c \<le> 0xDFFF)"

text \<open>
  Python 3's \<^verbatim>\<open>bytes(c, "utf-8")\<close>: the strict codec refuses a surrogate code point with
  \<^verbatim>\<open>UnicodeEncodeError\<close>.
\<close>

fun py3_encode_utf8 :: "nat list \<Rightarrow> py_error + byte list" where
  "py3_encode_utf8 [] = Inr []"
| "py3_encode_utf8 (c # cs) =
     (if is_surrogate c then Inl UnicodeEncodeError
      else (case py3_encode_utf8 cs of
              Inl e \<Rightarrow> Inl e
            | Inr bs \<Rightarrow> Inr (utf8_char c @ bs)))"

text \<open>
  Python 2's \<^verbatim>\<open>c.encode("utf-8")\<close>. On \<^verbatim>\<open>unicode\<close> it never fails: a high surrogate
  followed by a low one is encoded as the code point they stand for, a lone surrogate as
  three bytes. On a byte \<^verbatim>\<open>str\<close> it first decodes with the ASCII codec, which raises
  \<^verbatim>\<open>UnicodeDecodeError\<close> on a byte above 127.
\<close>

fun py2_encode_utf8 :: "nat list \<Rightarrow> byte list" where
  "py2_encode_utf8 [] = []"
| "py2_encode_utf8 [c] = utf8_char c"
| "py2_encode_utf8 (c # d # cs) =
     (if 0xD800 \<le> c \<and> c \<le> 0xDBFF \<and> 0xDC00 \<le> d \<and> d \<le> 0xDFFF
      then utf8_char (0x10000 + (c - 0xD800) * 0x400 + (d - 0xDC00)) @ py2_encode_utf8 cs
      else utf8_char c @ py2_encode_utf8 (d # cs))"

definition py2_str_encode_utf8 :: "byte list \<Rightarrow> py_error + byte list" where
  "py2_str_encode_utf8 bs =
     (if list_all (\<lambda>b. b < 0x80) bs then Inr bs else Inl UnicodeDecodeError)"

text \<open>
  The inner function \<^verbatim>\<open>sha1\<close>, followed by \<^verbatim>\<open>.hexdigest()\<close>; \<open>hexdigest\<close> stands for
  \<^verbatim>\<open>hashlib.sha1(bytes).hexdigest()\<close>.
\<close>

definition sha1 :: "(byte list \<Rightarrow> string) \<Rightarrow> bool \<Rightarrow> content \<Rightarrow> py_error + string" where
  "sha1 hexdigest PY3 c =
     (case (if PY3 then (case c of Str s \<Rightarrow> py3_encode_utf8 s | Bytes bs \<Rightarrow> Inr bs)
            else (case c of Str s \<Rightarrow> Inr (py2_encode_utf8 s) | Bytes bs \<Rightarrow> py2_str_encode_utf8 bs)) of
        Inl e \<Rightarrow> Inl e
      | Inr bs \<Rightarrow> Inr (hexdigest bs))"

definition is_same_content ::
  "(byte list \<Rightarrow> string) \<Rightarrow> bool \<Rightarrow> content \<Rightarrow> content \<Rightarrow> py_error + bool" where
  "is_same_content hexdigest PY3 c1 c2 =
     (case sha1 hexdigest PY3 c1 of
        Inl e \<Rightarrow> Inl e
      | Inr d1 \<Rightarrow>
          (case sha1 hexdigest PY3 c2 of
             Inl e \<Rightarrow> Inl e
           | Inr d2 \<Rightarrow> Inr (d1 = d2)))"

text \<open>The inputs on which the encoding step of \<^verbatim>\<open>sha1\<close> does not raise.\<close>

definition encodable :: "bool \<Rightarrow> content \<Rightarrow> bool" where
  "encodable PY3 c =
     (case c of
        Str s \<Rightarrow> (if PY3 then list_all (\<lambda>cp. \<not> is_surrogate cp) s else True)
      | Bytes bs \<Rightarrow> (if PY3 then True else list_all (\<lambda>b. b < 0x80) bs))"

section \<open>Configuration\<close>

text \<open>
  A configuration is a Python dictionary with string keys and JSON values; dictionaries
  keep insertion order. \<^verbatim>\<open>dict.update\<close> assigns the pairs of the other dictionary in
  order. The value \<^verbatim>\<open>json.loads\<close> returns for a configuration file is taken to be a JSON
  object, the Config shape of the specification; a number is kept as its literal.
\<close>

datatype json =
    JNull
  | JBool bool
  | JNum string
  | JStr string
  | JArr "json list"
  | JObj "(string \<times> json) list"

type_synonym config = "(string \<times> json) list"

definition DEFAULT_CONFIG :: config where
  "DEFAULT_CONFIG =
     [(''footer'', JStr ''Status page hosted by GitHub, generated with <a href='https://github.com/jayfk/statuspage'>jayfk/statuspage</a>''),
      (''logo'', JStr ''https://raw.githubusercontent.com/jayfk/statuspage/master/template/logo.png''),
      (''title'', JStr ''Status''),
      (''favicon'', JStr ''https://raw.githubusercontent.com/jayfk/statuspage/master/template/favicon.png''),
      (''system-color'', JStr ''171717''),
      (''status-labels'',
         JObj [(''investigating'', JStr ''1192FC''),
               (''degraded performance'', JStr ''FFA500''),
               (''major outage'', JStr ''FF4D4D'')]),
      (''templates'',
         JArr [JStr ''template.html'', JStr ''style.css'', JStr ''statuspage.js'',
               JStr ''translations.ini''])]"

definition dict_update :: "config \<Rightarrow> config \<Rightarrow> config" where
  "dict_update d other = fold (\<lambda>kv. AList.update (fst kv) (snd kv)) other d"

text \<open>
  The library functions the module calls, as parameters: \<^verbatim>\<open>bytes.decode("utf-8")\<close> and
  \<^verbatim>\<open>json.loads\<close> (\<open>None\<close> when they raise, \<^verbatim>\<open>UnicodeDecodeError\<close> and the JSON decoder's
  error both being a \<^verbatim>\<open>ValueError\<close>), \<^verbatim>\<open>hashlib.sha1(...).hexdigest()\<close>,
  \<^verbatim>\<open>markdown2.markdown\<close>, and \<^verbatim>\<open>Template(...).render(...)\<close> on the template's bytes and the
  four values passed to it.
\<close>

record lib =
  lib_decode_utf8 :: "byte list \<Rightarrow> nat list option"
  lib_json_loads :: "nat list \<Rightarrow> config option"
  lib_hexdigest :: "byte list \<Rightarrow> string"
  lib_markdown :: "string \<Rightarrow> string"
  lib_render :: "byte list \<Rightarrow> systems \<Rightarrow> incident list \<Rightarrow> panels \<Rightarrow> config \<Rightarrow> py_error + nat list"

text \<open>
  \<^verbatim>\<open>read_local_config\<close>. The local file system maps a path to the bytes of the regular file
  there. A bare \<^verbatim>\<open>raise\<close> with no active exception raises \<^verbatim>\<open>RuntimeError\<close>.
\<close>

definition read_local_config :: "lib \<Rightarrow> (string \<rightharpoonup> byte list) \<Rightarrow> string \<Rightarrow> py_error + config" where
  "read_local_config l fs path =
     (if fs path \<noteq> None then
        (case fs ''config.json'' of
           None \<Rightarrow> Inl FileNotFoundError
         | Some bs \<Rightarrow>
             (case lib_decode_utf8 l bs of
                None \<Rightarrow> Inl UnicodeDecodeError
              | Some text \<Rightarrow>
                  (case lib_json_loads l text of
                     None \<Rightarrow> Inl ValueError
                   | Some c \<Rightarrow> Inr c)))
      else Inl RuntimeError)"

text \<open>
  The configuration \<^verbatim>\<open>run_create\<close> works with:
  \<^verbatim>\<open>read_local_config(config_path) if config_path else DEFAULT_CONFIG\<close>, where \<open>g\<close> is the
  current value of the module's \<^verbatim>\<open>DEFAULT_CONFIG\<close> object.
\<close>

definition run_create_config ::
  "lib \<Rightarrow> (string \<rightharpoonup> byte list) \<Rightarrow> string option \<Rightarrow> config \<Rightarrow> py_error + config" where
  "run_create_config l fs config_path g =
     (case config_path of
        None \<Rightarrow> Inr g
      | Some path \<Rightarrow> if path = [] then Inr g else read_local_config l fs path)"

section \<open>The remote repository\<close>

text \<open>
  The repository object of the GitHub client is a record of its answers:
  \<open>get_git_ref r ref\<close> is the commit hash \<^verbatim>\<open>repo.get_git_ref(ref).object.sha\<close>,
  \<open>get_contents r path ref\<close> the file \<^verbatim>\<open>repo.get_contents(path, ref)\<close>,
  \<open>get_listing r path ref\<close> the paths of the files \<^verbatim>\<open>repo.get_contents(path, ref)\<close> lists for a
  directory, \<open>write_result r call\<close> the exception a write call raises, if any. Every call
  that names a reference or a branch, and every line printed, is recorded as an event, in
  order. The bytes of a file are what both \<^verbatim>\<open>decoded_content\<close> and
  \<^verbatim>\<open>base64.b64decode(content)\<close> give.
\<close>

record gh_file =
  file_sha :: string
  file_bytes :: "byte list"

datatype event =
    Echo string
  | GetGitRef string
  | GetContents string string
  | UpdateFile string string string "nat list" string
  | CreateFile string string "nat list" string

record remote =
  get_git_ref :: "string \<Rightarrow> py_error + string"
  get_contents :: "string \<Rightarrow> string \<Rightarrow> py_error + gh_file"
  get_listing :: "string \<Rightarrow> string \<Rightarrow> py_error + string list"
  get_labels :: "label list"
  get_issues :: "issue list"
  get_collaborators :: "string list"
  write_result :: "event \<Rightarrow> py_error option"

text \<open>The branch and the path a write call names.\<close>

fun is_write :: "event \<Rightarrow> bool" where
  "is_write (UpdateFile path sha message text branch) = True"
| "is_write (CreateFile path message text branch) = True"
| "is_write _ = False"

fun write_branch :: "event \<Rightarrow> string" where
  "write_branch (UpdateFile path sha message text branch) = branch"
| "write_branch (CreateFile path message text branch) = branch"
| "write_branch _ = []"

fun write_path :: "event \<Rightarrow> string" where
  "write_path (UpdateFile path sha message text branch) = path"
| "write_path (CreateFile path message text branch) = path"
| "write_path _ = []"

text \<open>\<^verbatim>\<open>get_files\<close>: the paths at the root, read at the reference \<^verbatim>\<open>"gh-pages"\<close>.\<close>

definition get_files :: "remote \<Rightarrow> (py_error + string list) \<times> event list" where
  "get_files repo = (get_listing repo ''/'' ''gh-pages'', [GetContents ''/'' ''gh-pages''])"

text \<open>
  \<^verbatim>\<open>get_config\<close>. \<open>g\<close> is the value of the module's \<^verbatim>\<open>DEFAULT_CONFIG\<close> object when the call
  starts. \<^verbatim>\<open>config = DEFAULT_CONFIG\<close> binds the same object, so \<^verbatim>\<open>config.update\<close> changes
  it: the function returns its result, the value of \<^verbatim>\<open>DEFAULT_CONFIG\<close> afterwards, and the
  events.
\<close>

definition get_config ::
  "lib \<Rightarrow> remote \<Rightarrow> string \<Rightarrow> config \<Rightarrow> (py_error + config) \<times> config \<times> event list" where
  "get_config l repo branch_pages g =
     (case get_files repo of
        (Inl e, t) \<Rightarrow> (Inl e, g, t)
      | (Inr files, t) \<Rightarrow>
          if ''config.json'' \<in> set files then
            (case get_contents repo ''config.json'' branch_pages of
               Inl e \<Rightarrow> (Inl e, g, t @ [GetContents ''config.json'' branch_pages])
             | Inr config_file \<Rightarrow>
                 (case lib_decode_utf8 l (file_bytes config_file) of
                    None \<Rightarrow>
                      (Inr g, g, t @ [GetContents ''config.json'' branch_pages,
                         Echo ''WARNING: Unable to parse config file. Using defaults.''])
                  | Some text \<Rightarrow>
                      (case lib_json_loads l text of
                         None \<Rightarrow>
                           (Inr g, g, t @ [GetContents ''config.json'' branch_pages,
                              Echo ''WARNING: Unable to parse config file. Using defaults.''])
                       | Some repo_config \<Rightarrow>
                           (Inr (dict_update g repo_config), dict_update g repo_config,
                            t @ [GetContents ''config.json'' branch_pages]))))
          else (Inr g, g, t))"



section \<open>Update\<close>






section \<open>Upgrade\<close>

text \<open>
  \<^verbatim>\<open>for template in DEFAULT_CONFIG['templates']\<close> iterates a list over its elements, a
  string over its characters and a dictionary over its keys; another value is not
  iterable.
\<close>

definition py_iter :: "json \<Rightarrow> py_error + json list" where
  "py_iter v =
     (case v of
        JArr xs \<Rightarrow> Inr xs
      | JStr s \<Rightarrow> Inr (map (\<lambda>c. JStr [c]) s)
      | JObj kvs \<Rightarrow> Inr (map (\<lambda>kv. JStr (fst kv)) kvs)
      | _ \<Rightarrow> Inl TypeError)"

text \<open>
  The loop of \<^verbatim>\<open>run_upgrade\<close>. \<open>local_templates\<close> maps a template name to the bytes of the
  file at \<^verbatim>\<open>os.path.join(ROOT, "template", template)\<close>; joining a path with a value that is
  not a string raises \<^verbatim>\<open>TypeError\<close>.
\<close>

fun run_upgrade_loop ::
  "lib \<Rightarrow> bool \<Rightarrow> remote \<Rightarrow> (string \<rightharpoonup> byte list) \<Rightarrow> string \<Rightarrow> string list \<Rightarrow> string \<Rightarrow>
   json list \<Rightarrow> (py_error + unit) \<times> event list" where
  "run_upgrade_loop l PY3 repo local_templates branch_pages files head_sha [] = (Inr (), [])"
| "run_upgrade_loop l PY3 repo local_templates branch_pages files head_sha (JStr template # rest) =
     (case local_templates template of
        None \<Rightarrow> (Inl FileNotFoundError, [])
      | Some bs \<Rightarrow>
          (case lib_decode_utf8 l bs of
             None \<Rightarrow> (Inl UnicodeDecodeError, [])
           | Some text \<Rightarrow>
               if template \<in> set files then
                 (case get_contents repo (''/'' @ template) head_sha of
                    Inl e \<Rightarrow> (Inl e, [GetContents (''/'' @ template) head_sha])
                  | Inr repo_template \<Rightarrow>
                      (case is_same_content (lib_hexdigest l) PY3 (Str text)
                              (Bytes (file_bytes repo_template)) of
                         Inl e \<Rightarrow> (Inl e, [GetContents (''/'' @ template) head_sha])
                       | Inr same \<Rightarrow>
                           if same then
                             (case run_upgrade_loop l PY3 repo local_templates branch_pages files
                                     head_sha rest of
                                (r, t) \<Rightarrow> (r, GetContents (''/'' @ template) head_sha # t))
                           else
                             (case write_result repo
                                     (UpdateFile template (file_sha repo_template) ''upgrade'' text
                                        branch_pages) of
                                Some e \<Rightarrow>
                                  (Inl e,
                                   [GetContents (''/'' @ template) head_sha,
                                    UpdateFile template (file_sha repo_template) ''upgrade'' text
                                      branch_pages])
                              | None \<Rightarrow>
                                  (case run_upgrade_loop l PY3 repo local_templates branch_pages
                                          files head_sha rest of
                                     (r, t) \<Rightarrow>
                                       (r, [GetContents (''/'' @ template) head_sha,
                                            UpdateFile template (file_sha repo_template) ''upgrade''
                                              text branch_pages] @ t)))))
               else
                 (case write_result repo (CreateFile template ''upgrade'' text branch_pages) of
                    Some e \<Rightarrow> (Inl e, [CreateFile template ''upgrade'' text branch_pages])
                  | None \<Rightarrow>
                      (case run_upgrade_loop l PY3 repo local_templates branch_pages files
                              head_sha rest of
                         (r, t) \<Rightarrow> (r, CreateFile template ''upgrade'' text branch_pages # t)))))"
| "run_upgrade_loop l PY3 repo local_templates branch_pages files head_sha (_ # rest) =
     (Inl TypeError, [])"

text \<open>
  \<^verbatim>\<open>run_upgrade\<close>, with \<open>g\<close> the value of the module's \<^verbatim>\<open>DEFAULT_CONFIG\<close> object when the
  call starts.
\<close>

definition run_upgrade ::
  "lib \<Rightarrow> bool \<Rightarrow> remote \<Rightarrow> (string \<rightharpoonup> byte list) \<Rightarrow> string \<Rightarrow> config \<Rightarrow>
   (py_error + unit) \<times> event list" where
  "run_upgrade l PY3 repo local_templates branch_pages g =
     (case get_files repo of
        (Inl e, t) \<Rightarrow> (Inl e, Echo ''Upgrading...'' # t)
      | (Inr files, t) \<Rightarrow>
          (case get_git_ref repo (''heads/'' @ branch_pages) of
             Inl e \<Rightarrow> (Inl e, Echo ''Upgrading...'' # t @ [GetGitRef (''heads/'' @ branch_pages)])
           | Inr head_sha \<Rightarrow>
               (case map_of g ''templates'' of
                  None \<Rightarrow>
                    (Inl KeyError, Echo ''Upgrading...'' # t @ [GetGitRef (''heads/'' @ branch_pages)])
                | Some v \<Rightarrow>
                    (case py_iter v of
                       Inl e \<Rightarrow>
                         (Inl e,
                          Echo ''Upgrading...'' # t @ [GetGitRef (''heads/'' @ branch_pages)])
                     | Inr templates \<Rightarrow>
                         (case run_upgrade_loop l PY3 repo local_templates branch_pages files
                                 head_sha templates of
                            (r, t') \<Rightarrow>
                              (r, Echo ''Upgrading...'' # t @
                                    [GetGitRef (''heads/'' @ branch_pages)] @ t'))))))"

section \<open>Scenario data\<close>

text \<open>
  Concrete labels and issues for the examples: a system label has the default system
  colour, and the severity names are those of the default configuration.
\<close>

definition system_label :: "string \<Rightarrow> label" where
  "system_label n = \<lparr>name = n, color = ''171717''\<rparr>"

definition plain_label :: "string \<Rightarrow> label" where
  "plain_label n = \<lparr>name = n, color = ''FF4D4D''\<rparr>"

definition issue_by :: "string \<Rightarrow> string \<Rightarrow> string \<Rightarrow> int \<Rightarrow> label list \<Rightarrow> issue" where
  "issue_by who ti st t ls =
     \<lparr>title = ti, body = ''text'', state = st, created_at = t, login = who, labels = ls,
      comments = []\<rparr>"

definition default_status_labels :: "(string \<times> string) list" where
  "default_status_labels =
     [(''investigating'', ''1192FC''), (''degraded performance'', ''FFA500''),
      (''major outage'', ''FF4D4D'')]"

text \<open>
  Stand-ins for the library: a decoder for ASCII bytes, a parser that knows the two
  configuration files of the examples (\<^verbatim>\<open>{}\<close> and
  \<^verbatim>\<open>{"title":"Mine","templates":["extra.css"]}\<close>), a digest that spells the bytes, and a
  template engine that returns the template.
\<close>

definition ascii_lib :: lib where
  "ascii_lib =
     \<lparr>lib_decode_utf8 =
        (\<lambda>bs. if list_all (\<lambda>b. b < 0x80) bs then Some (map unat bs) else None),
      lib_json_loads =
        (\<lambda>page.
           if page = [0x7B, 0x7D] then Some []
           else if page =
             [0x7B, 0x22, 0x74, 0x69, 0x74, 0x6C, 0x65, 0x22, 0x3A, 0x22, 0x4D, 0x69, 0x6E, 0x65,
              0x22, 0x2C, 0x22, 0x74, 0x65, 0x6D, 0x70, 0x6C, 0x61, 0x74, 0x65, 0x73, 0x22, 0x3A,
              0x5B, 0x22, 0x65, 0x78, 0x74, 0x72, 0x61, 0x2E, 0x63, 0x73, 0x73, 0x22, 0x5D, 0x7D]
           then Some [(''title'', JStr ''Mine''), (''templates'', JArr [JStr ''extra.css''])]
           else None),
      lib_hexdigest = (\<lambda>bs. map (\<lambda>b. char_of (unat b)) bs),
      lib_markdown = (\<lambda>page. page),
      lib_render = (\<lambda>template systems incidents panels config. Inr (map unat template))\<rparr>"

text \<open>
  A repository with two branches. The branch \<^verbatim>\<open>status\<close>, whose head is \<^verbatim>\<open>c0ffee\<close>, holds
  \<^verbatim>\<open>config.json\<close>, \<^verbatim>\<open>index.html\<close> and \<^verbatim>\<open>template.html\<close>; the branch \<^verbatim>\<open>gh-pages\<close>, whose head
  is \<^verbatim>\<open>decade\<close>, lists the paths given as the argument.
\<close>

definition two_branch_repo :: "string list \<Rightarrow> remote" where
  "two_branch_repo gh_pages_files =
     \<lparr>get_git_ref =
        (\<lambda>ref. if ref = ''heads/status'' then Inr ''c0ffee''
               else if ref = ''heads/gh-pages'' then Inr ''decade''
               else Inl UnknownObjectException),
      get_contents =
        (\<lambda>path ref.
           if (ref = ''status'' \<or> ref = ''c0ffee'') \<and> path = ''config.json'' then
             Inr \<lparr>file_sha = ''f1'',
                  file_bytes =
                    [0x7B, 0x22, 0x74, 0x69, 0x74, 0x6C, 0x65, 0x22, 0x3A, 0x22, 0x4D, 0x69, 0x6E,
                     0x65, 0x22, 0x2C, 0x22, 0x74, 0x65, 0x6D, 0x70, 0x6C, 0x61, 0x74, 0x65, 0x73,
                     0x22, 0x3A, 0x5B, 0x22, 0x65, 0x78, 0x74, 0x72, 0x61, 0x2E, 0x63, 0x73, 0x73,
                     0x22, 0x5D, 0x7D]\<rparr>
           else if (ref = ''status'' \<or> ref = ''c0ffee'') \<and> path = ''/template.html'' then
             Inr \<lparr>file_sha = ''f2'', file_bytes = [0x68, 0x69]\<rparr>
           else if (ref = ''status'' \<or> ref = ''c0ffee'') \<and> path = ''/index.html'' then
             Inr \<lparr>file_sha = ''f3'', file_bytes = [0x6F, 0x6C, 0x64]\<rparr>
           else Inl UnknownObjectException),
      get_listing =
        (\<lambda>path ref.
           if path = ''/'' \<and> (ref = ''status'' \<or> ref = ''c0ffee'') then
             Inr [''config.json'', ''index.html'', ''template.html'']
           else if path = ''/'' \<and> (ref = ''gh-pages'' \<or> ref = ''decade'') then Inr gh_pages_files
           else Inl UnknownObjectException),
      get_labels = [system_label ''API''],
      get_issues = [],
      get_collaborators = [''alice''],
      write_result = (\<lambda>call. None)\<rparr>"

section \<open>Facts about association lists\<close>

lemma map_of_keyed:
  "map_of (map (\<lambda>k. (k, f k)) ks) k = (if k \<in> set ks then Some (f k) else None)"
  by (induction ks) auto

lemma update_keyed_in:
  "k \<in> set ks \<Longrightarrow> distinct ks \<Longrightarrow>
   AList.update k v (map (\<lambda>k'. (k', f k')) ks) = map (\<lambda>k'. (k', if k' = k then v else f k')) ks"
  by (induction ks) auto

lemma update_keyed_notin:
  "k \<notin> set ks \<Longrightarrow>
   AList.update k v (map (\<lambda>k'. (k', f k')) ks) = map (\<lambda>k'. (k', f k')) ks @ [(k, v)]"
  by (induction ks) auto

lemma map_fst_update_in:
  "k \<in> fst ` set al \<Longrightarrow> map fst (AList.update k v al) = map fst al"
  by (induction al) auto

lemma map_fst_update_notin:
  "k \<notin> fst ` set al \<Longrightarrow> map fst (AList.update k v al) = map fst al @ [k]"
  by (induction al) auto


section \<open>Facts about panels\<close>

lemma first_seen_snoc:
  "first_seen (xs @ [x]) = (if x \<in> set xs then first_seen xs else first_seen xs @ [x])"
  by (simp add: first_seen_def)

lemma set_first_seen: "set (first_seen xs) = set xs"
  by (simp add: first_seen_def)

lemma distinct_first_seen: "distinct (first_seen xs)"
  by (simp add: first_seen_def)

lemma panels_spec_snoc_operational:
  assumes "status d = Some ''operational''"
  shows "panels_spec (pre @ [(s, d)]) = panels_spec pre"
  using assms by (auto simp: panels_spec_def set_first_seen)

lemma panels_spec_snoc_seen:
  assumes "status d \<noteq> Some ''operational''"
    and "status d \<in> fst ` set (panels_spec pre)"
  shows "panels_spec (pre @ [(s, d)]) =
         AList.update (status d) (the (map_of (panels_spec pre) (status d)) @ [s]) (panels_spec pre)"
  using assms
  by (auto simp: panels_spec_def first_seen_snoc set_first_seen image_image
        update_keyed_in map_of_keyed distinct_first_seen)

lemma panels_spec_snoc_new:
  assumes "status d \<noteq> Some ''operational''"
    and "status d \<notin> fst ` set (panels_spec pre)"
  shows "panels_spec (pre @ [(s, d)]) = AList.update (status d) [s] (panels_spec pre)"
proof -
  have no: "filter (\<lambda>p. status (snd p) = status d) pre = []"
    using assms by (force simp: panels_spec_def set_first_seen image_image filter_empty_conv)
  show ?thesis
    using assms no
    by (auto simp: panels_spec_def first_seen_snoc set_first_seen image_image
        update_keyed_notin)
qed

lemma get_panels_loop_spec:
  "get_panels_loop (panels_spec pre) rest = panels_spec (pre @ rest)"
proof (induction rest arbitrary: pre)
  case Nil
  show ?case by simp
next
  case (Cons p rest)
  obtain s d where p: "p = (s, d)" by (cases p)
  have step: "get_panels_loop (panels_spec pre) (p # rest)
        = get_panels_loop (panels_spec (pre @ [p])) rest"
  proof (cases "status d = Some ''operational''")
    case True
    then show ?thesis by (simp add: p panels_spec_snoc_operational)
  next
    case False
    show ?thesis
    proof (cases "map_of (panels_spec pre) (status d)")
      case None
      then have "status d \<notin> fst ` set (panels_spec pre)"
        by (simp add: map_of_eq_None_iff)
      with False None show ?thesis by (simp add: p panels_spec_snoc_new)
    next
      case (Some xs)
      then have "status d \<in> fst ` set (panels_spec pre)"
        by (metis map_of_eq_None_iff option.distinct(1))
      with False Some show ?thesis by (simp add: p panels_spec_snoc_seen)
    qed
  qed
  show ?case using Cons.IH [of "pre @ [p]"] step by simp
qed

lemma get_panels_is_spec: "get_panels systems = panels_spec systems"
  using get_panels_loop_spec [of "[]" systems]
  by (simp add: get_panels_def panels_spec_def first_seen_def)

section \<open>Facts about the system status\<close>

lemma seed_keys_set:
  "fst ` set (get_systems_seed s ns) = fst ` set s \<union> set ns"
  by (induction s ns rule: get_systems_seed.induct) (auto simp: dom_update)

lemma seed_distinct:
  "distinct (map fst s) \<Longrightarrow> distinct (map fst (get_systems_seed s ns))"
  by (induction s ns rule: get_systems_seed.induct) (auto simp: distinct_update)

lemma seed_sorted:
  "sorted (map fst s @ ns) \<Longrightarrow> sorted (map fst (get_systems_seed s ns))"
proof (induction s ns rule: get_systems_seed.induct)
  case (1 s)
  then show ?case by simp
next
  case (2 s n ns)
  let ?s' = "AList.update n \<lparr>status = Some ''operational''\<rparr> s"
  have "sorted (map fst ?s' @ ns)"
  proof (cases "n \<in> fst ` set s")
    case True
    with 2(2) show ?thesis by (simp add: map_fst_update_in sorted_append)
  next
    case False
    with 2(2) show ?thesis by (simp add: map_fst_update_notin)
  qed
  then show ?case using 2(1) by simp
qed

lemma seed_map_of:
  "map_of (get_systems_seed s ns) k =
     (if k \<in> set ns then Some \<lparr>status = Some ''operational''\<rparr> else map_of s k)"
  by (induction s ns rule: get_systems_seed.induct) (auto simp: update_conv')

lemma seed_keys:
  "map fst (get_systems_seed [] (sort ns)) = sorted_list_of_set (set ns)"
proof -
  have "sorted (map fst (get_systems_seed [] (sort ns)))"
    by (rule seed_sorted) simp
  moreover have "distinct (map fst (get_systems_seed [] (sort ns)))"
    by (rule seed_distinct) simp
  moreover have "set (map fst (get_systems_seed [] (sort ns))) = set ns"
    using seed_keys_set [of "[]" "sort ns"] by simp
  ultimately show ?thesis
    by (metis List.finite_set sorted_list_of_set.idem_if_sorted_distinct)
qed

lemma mark_Inr:
  "set affected \<subseteq> fst ` set m0 \<Longrightarrow> \<exists>m. get_systems_mark m0 sev affected = Inr m"
proof (induction m0 sev affected rule: get_systems_mark.induct)
  case (1 m0 sev)
  show ?case by simp
next
  case (2 m0 sev a rest)
  from 2(2) obtain d where d: "map_of m0 a = Some d"
    by (cases "map_of m0 a") (auto simp: map_of_eq_None_iff)
  have "set rest \<subseteq> fst ` set (AList.update a (d\<lparr>status := sev\<rparr>) m0)"
    using 2(2) by (auto simp: dom_update)
  with 2(1) [OF d] d show ?case by simp
qed

lemma mark_KeyError:
  "\<not> set affected \<subseteq> fst ` set m0 \<Longrightarrow> get_systems_mark m0 sev affected = Inl KeyError"
proof (induction m0 sev affected rule: get_systems_mark.induct)
  case (1 m0 sev)
  then show ?case by simp
next
  case (2 m0 sev a rest)
  show ?case
  proof (cases "map_of m0 a")
    case None
    then show ?thesis by simp
  next
    case (Some d)
    then have "a \<in> fst ` set m0"
      by (metis map_of_eq_None_iff option.distinct(1))
    with 2(2) have "\<not> set rest \<subseteq> fst ` set (AList.update a (d\<lparr>status := sev\<rparr>) m0)"
      by (auto simp: dom_update)
    with 2(1) [OF Some] Some show ?thesis by simp
  qed
qed

lemma mark_result:
  "get_systems_mark m0 sev affected = Inr m \<Longrightarrow>
     map fst m = map fst m0 \<and>
     (\<forall>s. map_of m s = (if s \<in> set affected then Some \<lparr>status = sev\<rparr> else map_of m0 s))"
proof (induction m0 sev affected arbitrary: m rule: get_systems_mark.induct)
  case (1 m0 sev)
  then show ?case by simp
next
  case (2 m0 sev a rest)
  from 2(2) obtain d where d: "map_of m0 a = Some d"
    by (cases "map_of m0 a") auto
  then have ain: "a \<in> fst ` set m0"
    by (metis map_of_eq_None_iff option.distinct(1))
  let ?m1 = "AList.update a (d\<lparr>status := sev\<rparr>) m0"
  have r: "get_systems_mark ?m1 sev rest = Inr m" using 2(2) d by simp
  have dd: "d\<lparr>status := sev\<rparr> = \<lparr>status = sev\<rparr>" by simp
  from 2(1) [OF d r] show ?case
    by (auto simp: update_conv' map_fst_update_in [OF ain] dd)
qed

lemma writers_Cons:
  "writers (i # rest) sc s =
     (if state i = ''open'' \<and> s \<in> set (iter_systems (labels i) sc)
      then i # writers rest sc s else writers rest sc s)"
  by (simp add: writers_def)

lemma loop_result:
  "get_systems_loop m0 issues sc sl = Inr m \<Longrightarrow>
     map fst m = map fst m0 \<and>
     (\<forall>s. map_of m s =
        (if writers issues sc s = [] then map_of m0 s
         else Some \<lparr>status = get_severity (labels (last (writers issues sc s))) sl\<rparr>))"
proof (induction issues arbitrary: m0)
  case Nil
  then show ?case by (simp add: writers_def)
next
  case (Cons i rest)
  show ?case
  proof (cases "state i = ''open''")
    case False
    with Cons.prems have "get_systems_loop m0 rest sc sl = Inr m" by simp
    from Cons.IH [OF this] False show ?thesis by (simp add: writers_Cons)
  next
    case True
    with Cons.prems obtain m1 where
      m1: "get_systems_mark m0 (get_severity (labels i) sl) (iter_systems (labels i) sc) = Inr m1"
      and r: "get_systems_loop m1 rest sc sl = Inr m"
      by (auto split: sum.splits)
    note A = mark_result [OF m1]
    note B = Cons.IH [OF r]
    show ?thesis
    proof (intro conjI allI)
      show "map fst m = map fst m0" using A B by simp
    next
      fix s
      show "map_of m s =
        (if writers (i # rest) sc s = [] then map_of m0 s
         else Some \<lparr>status = get_severity (labels (last (writers (i # rest) sc s))) sl\<rparr>)"
        using A B True by (simp add: writers_Cons)
    qed
  qed
qed

lemma loop_Inr:
  "(\<forall>i \<in> set issues. state i = ''open'' \<longrightarrow> set (iter_systems (labels i) sc) \<subseteq> fst ` set m0)
   \<Longrightarrow> \<exists>m. get_systems_loop m0 issues sc sl = Inr m"
proof (induction issues arbitrary: m0)
  case Nil
  show ?case by simp
next
  case (Cons i rest)
  show ?case
  proof (cases "state i = ''open''")
    case False
    with Cons show ?thesis by simp
  next
    case True
    with Cons.prems have "set (iter_systems (labels i) sc) \<subseteq> fst ` set m0" by simp
    from mark_Inr [OF this] obtain m1 where
      m1: "get_systems_mark m0 (get_severity (labels i) sl) (iter_systems (labels i) sc) = Inr m1"
      by blast
    have "fst ` set m1 = fst ` set m0"
      using mark_result [OF m1] by (metis set_map)
    with Cons.prems have "\<forall>i \<in> set rest. state i = ''open'' \<longrightarrow>
        set (iter_systems (labels i) sc) \<subseteq> fst ` set m1" by simp
    from Cons.IH [OF this] m1 True show ?thesis by simp
  qed
qed

lemma loop_KeyError:
  "\<exists>i \<in> set issues. state i = ''open'' \<and> \<not> set (iter_systems (labels i) sc) \<subseteq> fst ` set m0
   \<Longrightarrow> get_systems_loop m0 issues sc sl = Inl KeyError"
proof (induction issues arbitrary: m0)
  case Nil
  then show ?case by simp
next
  case (Cons i rest)
  show ?case
  proof (cases "state i = ''open''")
    case False
    with Cons show ?thesis by simp
  next
    case True
    show ?thesis
    proof (cases "set (iter_systems (labels i) sc) \<subseteq> fst ` set m0")
      case False
      with True show ?thesis by (simp add: mark_KeyError)
    next
      case sub: True
      from mark_Inr [OF this] obtain m1 where
        m1: "get_systems_mark m0 (get_severity (labels i) sl) (iter_systems (labels i) sc) = Inr m1"
        by blast
      have "fst ` set m1 = fst ` set m0"
        using mark_result [OF m1] by (metis set_map)
      with Cons.prems sub have "\<exists>i \<in> set rest. state i = ''open'' \<and>
          \<not> set (iter_systems (labels i) sc) \<subseteq> fst ` set m1" by auto
      from Cons.IH [OF this] m1 True show ?thesis by simp
    qed
  qed
qed

lemma set_iter_systems:
  "set (iter_systems ls sc) = name ` {l \<in> set ls. color l = sc}"
  by (induction ls) auto

lemma get_systems_result:
  assumes "get_systems repo_labels issues sc sl = Inr m"
  shows "map fst m = sorted_list_of_set (set (iter_systems repo_labels sc))"
    and "map_of m s =
           (if writers issues sc s = [] then
              (if s \<in> set (iter_systems repo_labels sc)
               then Some \<lparr>status = Some ''operational''\<rparr> else None)
            else Some \<lparr>status = get_severity (labels (last (writers issues sc s))) sl\<rparr>)"
proof -
  note R = loop_result [OF assms [unfolded get_systems_def]]
  show "map fst m = sorted_list_of_set (set (iter_systems repo_labels sc))"
    using R by (simp add: seed_keys)
  show "map_of m s =
           (if writers issues sc s = [] then
              (if s \<in> set (iter_systems repo_labels sc)
               then Some \<lparr>status = Some ''operational''\<rparr> else None)
            else Some \<lparr>status = get_severity (labels (last (writers issues sc s))) sl\<rparr>)"
    using R by (simp add: seed_map_of)
qed

lemma writers_append:
  "writers (xs @ ys) sc s = writers xs sc s @ writers ys sc s"
  by (simp add: writers_def)

lemma iter_systems_member:
  "l \<in> set ls \<Longrightarrow> color l = sc \<Longrightarrow> name l \<in> set (iter_systems ls sc)"
  by (induction ls) auto

lemma seeded_keys: "fst ` set (get_systems_seed [] (sort ns)) = set ns"
  using seed_keys_set [of "[]" "sort ns"] by simp

lemma iter_systems_subset:
  "\<forall>l \<in> set ls. color l = sc \<longrightarrow> l \<in> set repo_labels \<Longrightarrow>
   set (iter_systems ls sc) \<subseteq> set (iter_systems repo_labels sc)"
proof (induction ls)
  case Nil
  show ?case by simp
next
  case (Cons l ls)
  then show ?case by (auto intro: iter_systems_member)
qed

section \<open>Facts about incidents\<close>





section \<open>Facts about content equality\<close>

lemma py3_encode_utf8_ok:
  "list_all (\<lambda>cp. \<not> is_surrogate cp) s \<Longrightarrow> \<exists>bs. py3_encode_utf8 s = Inr bs"
  by (induction s) auto

lemma py3_encode_utf8_error:
  "py3_encode_utf8 s = Inl e \<Longrightarrow> e = UnicodeEncodeError"
  by (induction s arbitrary: e) (auto split: if_splits sum.splits)

lemma sha1_error:
  "sha1 h PY3 c = Inl e \<Longrightarrow> e = (if PY3 then UnicodeEncodeError else UnicodeDecodeError)"
  by (cases c)
    (auto simp: sha1_def py2_str_encode_utf8_def dest: py3_encode_utf8_error
      split: if_splits sum.splits)

lemma sha1_encodable:
  "encodable PY3 c \<Longrightarrow> \<exists>d. sha1 h PY3 c = Inr d"
proof (cases c)
  case (Str s)
  assume "encodable PY3 c"
  with Str show ?thesis
    using py3_encode_utf8_ok [of s]
    by (auto simp: sha1_def encodable_def split: if_splits)
next
  case (Bytes bs)
  assume "encodable PY3 c"
  with Bytes show ?thesis
    by (auto simp: sha1_def encodable_def py2_str_encode_utf8_def split: if_splits)
qed

lemma is_same_content_sym:
  "is_same_content h PY3 x y = is_same_content h PY3 y x"
proof (cases "sha1 h PY3 x")
  case xl: (Inl e)
  show ?thesis
  proof (cases "sha1 h PY3 y")
    case (Inl e')
    with xl sha1_error [OF xl] sha1_error [OF Inl] show ?thesis
      by (simp add: is_same_content_def)
  next
    case (Inr d)
    with xl show ?thesis by (simp add: is_same_content_def)
  qed
next
  case xr: (Inr d)
  show ?thesis
  proof (cases "sha1 h PY3 y")
    case (Inl e')
    with xr show ?thesis by (simp add: is_same_content_def)
  next
    case (Inr d')
    with xr show ?thesis by (auto simp: is_same_content_def)
  qed
qed

section \<open>Facts about the configuration\<close>

lemma dict_update_Cons:
  "dict_update g (kv # rc) = dict_update (AList.update (fst kv) (snd kv) g) rc"
  by (simp add: dict_update_def)

lemma map_of_dict_update:
  "map_of (dict_update g rc) k =
     (case map_of (rev rc) k of Some v \<Rightarrow> Some v | None \<Rightarrow> map_of g k)"
proof (induction rc arbitrary: g)
  case Nil
  show ?case by (simp add: dict_update_def)
next
  case (Cons kv rc)
  show ?case
    by (simp add: dict_update_Cons Cons.IH update_conv' map_add_def split: option.splits)
qed

lemma get_config_alias:
  "get_config l repo bp g = (Inr c, g', t) \<Longrightarrow> c = g'"
  by (auto simp: get_config_def get_files_def split: sum.splits option.splits if_splits)

lemma get_config_merges:
  assumes "get_listing repo ''/'' ''gh-pages'' = Inr files"
    and "''config.json'' \<in> set files"
    and "get_contents repo ''config.json'' bp = Inr f"
    and "lib_decode_utf8 l (file_bytes f) = Some page"
    and "lib_json_loads l page = Some rc"
  shows "get_config l repo bp g =
     (Inr (dict_update g rc), dict_update g rc,
      [GetContents ''/'' ''gh-pages'', GetContents ''config.json'' bp])"
  using assms by (simp add: get_config_def get_files_def)

lemma get_config_absent:
  assumes "get_listing repo ''/'' ''gh-pages'' = Inr files"
    and "''config.json'' \<notin> set files"
  shows "get_config l repo bp g = (Inr g, g, [GetContents ''/'' ''gh-pages''])"
  using assms by (simp add: get_config_def get_files_def)

lemma get_config_unparsable:
  assumes "get_listing repo ''/'' ''gh-pages'' = Inr files"
    and "''config.json'' \<in> set files"
    and "get_contents repo ''config.json'' bp = Inr f"
    and "lib_decode_utf8 l (file_bytes f) = None
         \<or> (\<exists>page. lib_decode_utf8 l (file_bytes f) = Some page \<and> lib_json_loads l page = None)"
  shows "get_config l repo bp g =
     (Inr g, g,
      [GetContents ''/'' ''gh-pages'', GetContents ''config.json'' bp,
       Echo ''WARNING: Unable to parse config file. Using defaults.''])"
  using assms by (auto simp: get_config_def get_files_def)

lemma run_upgrade_loop_writes:
  "\<forall>ev \<in> set (snd (run_upgrade_loop l PY3 repo lt bp files head_sha ts)).
     is_write ev \<longrightarrow> JStr (write_path ev) \<in> set ts \<and> write_branch ev = bp"
proof (induction ts)
  case Nil
  show ?case by simp
next
  case (Cons t ts)
  show ?case
  proof (cases t)
    case (JStr template)
    obtain r tr where rest: "run_upgrade_loop l PY3 repo lt bp files head_sha ts = (r, tr)"
      by (cases "run_upgrade_loop l PY3 repo lt bp files head_sha ts")
    with Cons.IH have tr: "\<forall>ev \<in> set tr. is_write ev \<longrightarrow> JStr (write_path ev) \<in> set ts \<and> write_branch ev = bp"
      by simp
    show ?thesis
      using tr
      by (auto simp: JStr rest split: option.splits sum.splits)
  qed simp_all
qed

lemma run_upgrade_writes:
  assumes "map_of g ''templates'' = Some v" and "py_iter v = Inr ts"
  shows "\<forall>ev \<in> set (snd (run_upgrade l PY3 repo lt bp g)).
           is_write ev \<longrightarrow> JStr (write_path ev) \<in> set ts \<and> write_branch ev = bp"
proof (cases "get_listing repo ''/'' ''gh-pages''")
  case (Inl e)
  then show ?thesis by (simp add: run_upgrade_def get_files_def)
next
  case files: (Inr files)
  show ?thesis
  proof (cases "get_git_ref repo (''heads/'' @ bp)")
    case (Inl e)
    with files show ?thesis by (simp add: run_upgrade_def get_files_def)
  next
    case (Inr head_sha)
    obtain r tr where loop: "run_upgrade_loop l PY3 repo lt bp files head_sha ts = (r, tr)"
      by (cases "run_upgrade_loop l PY3 repo lt bp files head_sha ts")
    have "\<forall>ev \<in> set tr. is_write ev \<longrightarrow> JStr (write_path ev) \<in> set ts \<and> write_branch ev = bp"
      using run_upgrade_loop_writes [of l PY3 repo lt bp files head_sha ts] loop by simp
    with files Inr assms loop show ?thesis
      by (simp add: run_upgrade_def get_files_def)
  qed
qed

section \<open>Facts about the update\<close>













section \<open>Claims about the system status\<close>

text \<open>
  C1, as amended. Whenever \<^verbatim>\<open>get_systems\<close> returns, the mapping has exactly one entry per
  name of a label with the system colour, in ascending order of name. The entry of a
  system is "operational" when no open issue carries its label; when some open issue
  does, and the last such issue in iteration order has a severity label, the entry is
  the severity of that last issue (last write wins).
\<close>

theorem get_systems_status:
  assumes "get_systems repo_labels issues sc sl = Inr m"
  shows "map fst m = sorted_list_of_set (set (iter_systems repo_labels sc))
    \<and> (\<forall>s \<in> set (iter_systems repo_labels sc).
          (writers issues sc s = [] \<longrightarrow> map_of m s = Some \<lparr>status = Some ''operational''\<rparr>)
        \<and> (\<forall>v. writers issues sc s \<noteq> []
               \<and> get_severity (labels (last (writers issues sc s))) sl = Some v
             \<longrightarrow> map_of m s = Some \<lparr>status = Some v\<rparr>))"
  using get_systems_result [OF assms] by auto

theorem get_systems_status_witness:
  "get_systems [system_label ''Website'', plain_label ''major outage'', system_label ''API'']
     [issue_by ''alice'' ''first'' ''open'' 1 [system_label ''API'', plain_label ''investigating''],
      issue_by ''alice'' ''second'' ''open'' 2 [system_label ''API'', plain_label ''major outage'']]
     ''171717'' default_status_labels
   = Inr [(''API'', \<lparr>status = Some ''major outage''\<rparr>),
          (''Website'', \<lparr>status = Some ''operational''\<rparr>)]
   \<and> map_of [(''API'', \<lparr>status = Some ''major outage''\<rparr>),
          (''Website'', \<lparr>status = Some ''operational''\<rparr>)] ''Website''
       = Some \<lparr>status = Some ''operational''\<rparr>
   \<and> sorted_list_of_set
        (set (iter_systems [system_label ''Website'', plain_label ''major outage'', system_label ''API'']
           ''171717'')) = [''API'', ''Website'']"
proof -
  have e: "get_systems [system_label ''Website'', plain_label ''major outage'', system_label ''API'']
     [issue_by ''alice'' ''first'' ''open'' 1 [system_label ''API'', plain_label ''investigating''],
      issue_by ''alice'' ''second'' ''open'' 2 [system_label ''API'', plain_label ''major outage'']]
     ''171717'' default_status_labels
   = Inr [(''API'', \<lparr>status = Some ''major outage''\<rparr>),
          (''Website'', \<lparr>status = Some ''operational''\<rparr>)]"
    by (simp add: get_systems_def system_label_def plain_label_def issue_by_def
        default_status_labels_def)
  from get_systems_status [OF e] e show ?thesis by simp
qed

theorem get_systems_operational_iff_counterexample:
  "\<not> (\<forall>m. get_systems [system_label ''API'']
             [issue_by ''alice'' ''only'' ''open'' 1 [system_label ''API'']]
             ''171717'' default_status_labels = Inr m \<longrightarrow>
         (\<forall>s \<in> set (iter_systems [system_label ''API''] ''171717'').
            (map_of m s = Some \<lparr>status = Some ''operational''\<rparr>)
            = (\<not> (\<exists>i \<in> set [issue_by ''alice'' ''only'' ''open'' 1 [system_label ''API'']].
                     state i = ''open'' \<and> s \<in> set (iter_systems (labels i) ''171717'')
                     \<and> get_severity (labels i) default_status_labels \<noteq> None))))
   \<and> \<not> (\<forall>m. get_systems [system_label ''API'', plain_label ''operational'']
             [issue_by ''alice'' ''only'' ''open'' 1 [system_label ''API'', plain_label ''operational'']]
             ''171717'' [(''operational'', ''00FF00'')] = Inr m \<longrightarrow>
         (\<forall>s \<in> set (iter_systems [system_label ''API'', plain_label ''operational''] ''171717'').
            (map_of m s = Some \<lparr>status = Some ''operational''\<rparr>)
            = (\<not> (\<exists>i \<in> set [issue_by ''alice'' ''only'' ''open'' 1
                               [system_label ''API'', plain_label ''operational'']].
                     state i = ''open'' \<and> s \<in> set (iter_systems (labels i) ''171717'')
                     \<and> get_severity (labels i) [(''operational'', ''00FF00'')] \<noteq> None))))"
  by (simp add: get_systems_def system_label_def plain_label_def issue_by_def
        default_status_labels_def)

text \<open>
  C2, as amended. Whenever \<^verbatim>\<open>get_systems\<close> returns, an open issue with no severity label
  leaves \<^verbatim>\<open>None\<close>, not "operational", as the status of each system whose label it
  carries, unless a later open issue carries that system's label too and overwrites
  the entry.
\<close>

theorem get_systems_none_status:
  assumes "get_systems repo_labels (pre @ i # post) sc sl = Inr m"
    and "state i = ''open''"
    and "get_severity (labels i) sl = None"
    and "s \<in> set (iter_systems (labels i) sc)"
    and "writers post sc s = []"
  shows "map_of m s = Some \<lparr>status = None\<rparr>"
proof -
  have w: "writers (pre @ i # post) sc s = writers pre sc s @ [i]"
    using assms(2,4,5) by (simp add: writers_append writers_Cons)
  show ?thesis
    using get_systems_result(2) [OF assms(1), of s] w assms(3) by simp
qed

theorem get_systems_none_status_witness:
  "get_systems [system_label ''API'', system_label ''Website'']
     ([issue_by ''alice'' ''first'' ''open'' 1 [system_label ''API'', plain_label ''major outage'']]
      @ issue_by ''alice'' ''second'' ''open'' 2 [system_label ''API'']
      # [issue_by ''alice'' ''third'' ''closed'' 3 [system_label ''API'', plain_label ''major outage'']])
     ''171717'' default_status_labels
   = Inr [(''API'', \<lparr>status = None\<rparr>), (''Website'', \<lparr>status = Some ''operational''\<rparr>)]
   \<and> map_of [(''API'', \<lparr>status = None\<rparr>), (''Website'', \<lparr>status = Some ''operational''\<rparr>)] ''API''
     = Some \<lparr>status = None\<rparr>"
proof -
  have e: "get_systems [system_label ''API'', system_label ''Website'']
     ([issue_by ''alice'' ''first'' ''open'' 1 [system_label ''API'', plain_label ''major outage'']]
      @ issue_by ''alice'' ''second'' ''open'' 2 [system_label ''API'']
      # [issue_by ''alice'' ''third'' ''closed'' 3 [system_label ''API'', plain_label ''major outage'']])
     ''171717'' default_status_labels
   = Inr [(''API'', \<lparr>status = None\<rparr>), (''Website'', \<lparr>status = Some ''operational''\<rparr>)]"
    by (simp add: get_systems_def system_label_def plain_label_def issue_by_def
        default_status_labels_def)
  have "map_of [(''API'', \<lparr>status = None\<rparr>), (''Website'', \<lparr>status = Some ''operational''\<rparr>)] ''API''
     = Some \<lparr>status = None\<rparr>"
    by (rule get_systems_none_status [OF e])
      (simp_all add: system_label_def plain_label_def issue_by_def default_status_labels_def
        writers_def)
  with e show ?thesis by simp
qed

theorem get_systems_none_counterexample:
  "state (issue_by ''alice'' ''first'' ''open'' 1 [system_label ''API'']) = ''open''
   \<and> get_severity (labels (issue_by ''alice'' ''first'' ''open'' 1 [system_label ''API'']))
        default_status_labels = None
   \<and> iter_systems (labels (issue_by ''alice'' ''first'' ''open'' 1 [system_label ''API''])) ''171717''
        = [''API'']
   \<and> get_systems [system_label ''API'']
        [issue_by ''alice'' ''first'' ''open'' 1 [system_label ''API''],
         issue_by ''alice'' ''second'' ''open'' 2 [system_label ''API'', plain_label ''major outage'']]
        ''171717'' default_status_labels
      = Inr [(''API'', \<lparr>status = Some ''major outage''\<rparr>)]"
  by (simp add: get_systems_def system_label_def plain_label_def issue_by_def
        default_status_labels_def)

text \<open>
  C3. If some open issue carries a label with the system colour whose name is not among
  the seeded system names, \<^verbatim>\<open>get_systems\<close> raises \<^verbatim>\<open>KeyError\<close>. If every label with the system
  colour on an open issue is one of the repository's labels, it returns a mapping.
\<close>

theorem get_systems_key_error:
  "((\<exists>i \<in> set issues. state i = ''open'' \<and>
        (\<exists>l \<in> set (labels i). color l = sc \<and> name l \<notin> set (iter_systems repo_labels sc)))
      \<longrightarrow> get_systems repo_labels issues sc sl = Inl KeyError)
   \<and> ((\<forall>i \<in> set issues. state i = ''open'' \<longrightarrow>
          (\<forall>l \<in> set (labels i). color l = sc \<longrightarrow> l \<in> set repo_labels))
      \<longrightarrow> (\<exists>m. get_systems repo_labels issues sc sl = Inr m))"
proof (intro conjI impI)
  assume "\<exists>i \<in> set issues. state i = ''open'' \<and>
        (\<exists>l \<in> set (labels i). color l = sc \<and> name l \<notin> set (iter_systems repo_labels sc))"
  then obtain i l where i: "i \<in> set issues" "state i = ''open''"
    and l: "l \<in> set (labels i)" "color l = sc" "name l \<notin> set (iter_systems repo_labels sc)"
    by blast
  from l have "\<not> set (iter_systems (labels i) sc) \<subseteq> set (iter_systems repo_labels sc)"
    using iter_systems_member by blast
  with i have "\<exists>i \<in> set issues. state i = ''open'' \<and>
      \<not> set (iter_systems (labels i) sc)
          \<subseteq> fst ` set (get_systems_seed [] (sort (iter_systems repo_labels sc)))"
    unfolding seeded_keys by blast
  then show "get_systems repo_labels issues sc sl = Inl KeyError"
    unfolding get_systems_def by (rule loop_KeyError)
next
  assume a: "\<forall>i \<in> set issues. state i = ''open'' \<longrightarrow>
          (\<forall>l \<in> set (labels i). color l = sc \<longrightarrow> l \<in> set repo_labels)"
  have "\<forall>i \<in> set issues. state i = ''open'' \<longrightarrow>
      set (iter_systems (labels i) sc)
          \<subseteq> fst ` set (get_systems_seed [] (sort (iter_systems repo_labels sc)))"
    unfolding seeded_keys using a iter_systems_subset by blast
  then show "\<exists>m. get_systems repo_labels issues sc sl = Inr m"
    unfolding get_systems_def by (rule loop_Inr)
qed

theorem get_systems_key_error_witness:
  "get_systems [system_label ''API'']
     [issue_by ''alice'' ''first'' ''open'' 1 [system_label ''Database'', plain_label ''major outage'']]
     ''171717'' default_status_labels = Inl KeyError
   \<and> (\<exists>m. get_systems [system_label ''API'', plain_label ''major outage'']
        [issue_by ''alice'' ''first'' ''open'' 1 [system_label ''API'', plain_label ''major outage''],
         issue_by ''alice'' ''second'' ''closed'' 2 [system_label ''Database'']]
        ''171717'' default_status_labels = Inr m)"
proof -
  have a: "get_systems [system_label ''API'']
     [issue_by ''alice'' ''first'' ''open'' 1 [system_label ''Database'', plain_label ''major outage'']]
     ''171717'' default_status_labels = Inl KeyError"
    using get_systems_key_error [of
        "[issue_by ''alice'' ''first'' ''open'' 1 [system_label ''Database'', plain_label ''major outage'']]"
        "''171717''" "[system_label ''API'']" default_status_labels]
    by (simp add: system_label_def plain_label_def issue_by_def)
  have b: "\<exists>m. get_systems [system_label ''API'', plain_label ''major outage'']
        [issue_by ''alice'' ''first'' ''open'' 1 [system_label ''API'', plain_label ''major outage''],
         issue_by ''alice'' ''second'' ''closed'' 2 [system_label ''Database'']]
        ''171717'' default_status_labels = Inr m"
    using get_systems_key_error [of
        "[issue_by ''alice'' ''first'' ''open'' 1 [system_label ''API'', plain_label ''major outage''],
         issue_by ''alice'' ''second'' ''closed'' 2 [system_label ''Database'']]"
        "''171717''" "[system_label ''API'', plain_label ''major outage'']" default_status_labels]
    by (simp add: system_label_def plain_label_def issue_by_def)
  from a b show ?thesis by simp
qed

section \<open>Claims about incidents and panels\<close>



text \<open>
  C5. \<^verbatim>\<open>get_panels\<close> goes through the mapping in its order, which for a mapping returned
  by \<^verbatim>\<open>get_systems\<close> is the order of the seeding; it skips the systems whose status is
  "operational" and groups the others by status, the keys in the order they are first
  seen and the systems of a key in the order of the mapping. The systems A, B, C, D of
  the example give "major outage" with A and C, then "degraded performance" with D.
\<close>

theorem get_panels_groups:
  "get_panels systems = panels_spec systems
   \<and> (get_systems repo_labels issues sc sl = Inr systems \<longrightarrow>
        map fst systems = map fst (get_systems_seed [] (sort (iter_systems repo_labels sc))))
   \<and> get_panels
        [(''A'', \<lparr>status = Some ''major outage''\<rparr>), (''B'', \<lparr>status = Some ''operational''\<rparr>),
         (''C'', \<lparr>status = Some ''major outage''\<rparr>),
         (''D'', \<lparr>status = Some ''degraded performance''\<rparr>)]
       = [(Some ''major outage'', [''A'', ''C'']), (Some ''degraded performance'', [''D''])]"
proof (intro conjI impI)
  show "get_panels systems = panels_spec systems"
    by (rule get_panels_is_spec)
next
  assume "get_systems repo_labels issues sc sl = Inr systems"
  then show "map fst systems = map fst (get_systems_seed [] (sort (iter_systems repo_labels sc)))"
    unfolding get_systems_def by (simp add: loop_result)
next
  show "get_panels
        [(''A'', \<lparr>status = Some ''major outage''\<rparr>), (''B'', \<lparr>status = Some ''operational''\<rparr>),
         (''C'', \<lparr>status = Some ''major outage''\<rparr>),
         (''D'', \<lparr>status = Some ''degraded performance''\<rparr>)]
       = [(Some ''major outage'', [''A'', ''C'']), (Some ''degraded performance'', [''D''])]"
    by (simp add: get_panels_def)
qed

theorem get_panels_groups_witness:
  "get_systems [system_label ''Website'', system_label ''API'', system_label ''Database'']
     [issue_by ''alice'' ''first'' ''open'' 1 [system_label ''Website'', plain_label ''degraded performance''],
      issue_by ''alice'' ''second'' ''open'' 2
        [system_label ''Database'', system_label ''API'', plain_label ''major outage'']]
     ''171717'' default_status_labels
   = Inr [(''API'', \<lparr>status = Some ''major outage''\<rparr>),
          (''Database'', \<lparr>status = Some ''major outage''\<rparr>),
          (''Website'', \<lparr>status = Some ''degraded performance''\<rparr>)]
   \<and> get_panels [(''API'', \<lparr>status = Some ''major outage''\<rparr>),
          (''Database'', \<lparr>status = Some ''major outage''\<rparr>),
          (''Website'', \<lparr>status = Some ''degraded performance''\<rparr>)]
     = [(Some ''major outage'', [''API'', ''Database'']), (Some ''degraded performance'', [''Website''])]"
proof -
  have e: "get_systems [system_label ''Website'', system_label ''API'', system_label ''Database'']
     [issue_by ''alice'' ''first'' ''open'' 1 [system_label ''Website'', plain_label ''degraded performance''],
      issue_by ''alice'' ''second'' ''open'' 2
        [system_label ''Database'', system_label ''API'', plain_label ''major outage'']]
     ''171717'' default_status_labels
   = Inr [(''API'', \<lparr>status = Some ''major outage''\<rparr>),
          (''Database'', \<lparr>status = Some ''major outage''\<rparr>),
          (''Website'', \<lparr>status = Some ''degraded performance''\<rparr>)]"
    by (simp add: get_systems_def system_label_def plain_label_def issue_by_def
        default_status_labels_def)
  have p: "get_panels [(''API'', \<lparr>status = Some ''major outage''\<rparr>),
          (''Database'', \<lparr>status = Some ''major outage''\<rparr>),
          (''Website'', \<lparr>status = Some ''degraded performance''\<rparr>)]
     = [(Some ''major outage'', [''API'', ''Database'']), (Some ''degraded performance'', [''Website''])]"
    using get_panels_groups [of "[(''API'', \<lparr>status = Some ''major outage''\<rparr>),
          (''Database'', \<lparr>status = Some ''major outage''\<rparr>),
          (''Website'', \<lparr>status = Some ''degraded performance''\<rparr>)]"
        "[system_label ''Website'', system_label ''API'', system_label ''Database'']"
        "[issue_by ''alice'' ''first'' ''open'' 1 [system_label ''Website'', plain_label ''degraded performance''],
      issue_by ''alice'' ''second'' ''open'' 2
        [system_label ''Database'', system_label ''API'', plain_label ''major outage'']]"
        "''171717''" default_status_labels] e
    by (simp add: panels_spec_def first_seen_def)
  from e p show ?thesis by simp
qed

section \<open>Claims about content equality\<close>

text \<open>
  C6, as amended. \<^verbatim>\<open>is_same_content\<close> is a function of its two arguments, and symmetric in
  them, a raised exception included. It is true of \<open>x\<close> and \<open>x\<close> for every \<open>x\<close> that the
  encoding step accepts: with \<^verbatim>\<open>PY3\<close>, bytes and text without surrogate code points. Text
  compares equal to its own UTF-8 encoding whenever the encoding step accepts both.
\<close>

theorem is_same_content_equivalence:
  "(encodable PY3 x \<longrightarrow> is_same_content h PY3 x x = Inr True)
   \<and> is_same_content h PY3 x y = is_same_content h PY3 y x
   \<and> (py3_encode_utf8 s = Inr bs \<longrightarrow> is_same_content h True (Str s) (Bytes bs) = Inr True)
   \<and> (list_all (\<lambda>b. b < 0x80) (py2_encode_utf8 s) \<longrightarrow>
        is_same_content h False (Str s) (Bytes (py2_encode_utf8 s)) = Inr True)"
proof (intro conjI impI)
  assume "encodable PY3 x"
  from sha1_encodable [OF this, of h] show "is_same_content h PY3 x x = Inr True"
    by (auto simp: is_same_content_def)
next
  show "is_same_content h PY3 x y = is_same_content h PY3 y x"
    by (rule is_same_content_sym)
next
  assume "py3_encode_utf8 s = Inr bs"
  then show "is_same_content h True (Str s) (Bytes bs) = Inr True"
    by (simp add: is_same_content_def sha1_def)
next
  assume "list_all (\<lambda>b. b < 0x80) (py2_encode_utf8 s)"
  then show "is_same_content h False (Str s) (Bytes (py2_encode_utf8 s)) = Inr True"
    by (simp add: is_same_content_def sha1_def py2_str_encode_utf8_def)
qed

theorem is_same_content_equivalence_witness:
  "\<forall>h. is_same_content h True (Str [0x48, 0xE9, 0x20AC, 0x1F600])
          (Bytes [0x48, 0xC3, 0xA9, 0xE2, 0x82, 0xAC, 0xF0, 0x9F, 0x98, 0x80]) = Inr True
     \<and> is_same_content h True (Str [0x48, 0xE9, 0x20AC, 0x1F600]) (Str [0x48, 0xE9, 0x20AC, 0x1F600])
         = Inr True
     \<and> is_same_content h False (Str [0x48, 0x69]) (Bytes [0x48, 0x69]) = Inr True"
proof
  fix h :: "byte list \<Rightarrow> string"
  have e: "py3_encode_utf8 [0x48, 0xE9, 0x20AC, 0x1F600]
      = Inr [0x48, 0xC3, 0xA9, 0xE2, 0x82, 0xAC, 0xF0, 0x9F, 0x98, 0x80]"
    by (simp add: utf8_char_def is_surrogate_def)
  have c: "encodable True (Str [0x48, 0xE9, 0x20AC, 0x1F600])"
    by (simp add: encodable_def is_surrogate_def)
  have a: "list_all (\<lambda>b. b < 0x80) (py2_encode_utf8 [0x48, 0x69])"
       "py2_encode_utf8 [0x48, 0x69] = [0x48, 0x69]"
    by (simp_all add: utf8_char_def)
  from is_same_content_equivalence [of True "Str [0x48, 0xE9, 0x20AC, 0x1F600]" h
      "Str [0x48, 0xE9, 0x20AC, 0x1F600]" "[0x48, 0xE9, 0x20AC, 0x1F600]"
      "[0x48, 0xC3, 0xA9, 0xE2, 0x82, 0xAC, 0xF0, 0x9F, 0x98, 0x80]"] e c
    is_same_content_equivalence [of True "Str []" h "Str []" "[0x48, 0x69]" "[]"] a
  show "is_same_content h True (Str [0x48, 0xE9, 0x20AC, 0x1F600])
          (Bytes [0x48, 0xC3, 0xA9, 0xE2, 0x82, 0xAC, 0xF0, 0x9F, 0x98, 0x80]) = Inr True
     \<and> is_same_content h True (Str [0x48, 0xE9, 0x20AC, 0x1F600]) (Str [0x48, 0xE9, 0x20AC, 0x1F600])
         = Inr True
     \<and> is_same_content h False (Str [0x48, 0x69]) (Bytes [0x48, 0x69]) = Inr True"
    by simp
qed

theorem is_same_content_reflexive_counterexample:
  "\<forall>h. is_same_content h True (Str [0xD800]) (Str [0xD800]) = Inl UnicodeEncodeError
     \<and> is_same_content h False (Bytes [0xC3, 0xA9]) (Bytes [0xC3, 0xA9]) = Inl UnicodeDecodeError
     \<and> py2_encode_utf8 [0xE9] = [0xC3, 0xA9]
     \<and> is_same_content h False (Str [0xE9]) (Bytes [0xC3, 0xA9]) = Inl UnicodeDecodeError"
  by (simp add: is_same_content_def sha1_def is_surrogate_def py2_str_encode_utf8_def utf8_char_def)

section \<open>Claims about the configuration\<close>

text \<open>
  C7. \<^verbatim>\<open>read_local_config\<close> tests the given path but opens the literal \<^verbatim>\<open>"config.json"\<close>:
  given \<^verbatim>\<open>my.json\<close> it returns what it returns for \<^verbatim>\<open>config.json\<close>, whatever \<^verbatim>\<open>my.json\<close>
  holds; it raises \<^verbatim>\<open>FileNotFoundError\<close> when \<^verbatim>\<open>my.json\<close> exists and \<^verbatim>\<open>config.json\<close> does
  not, and \<^verbatim>\<open>RuntimeError\<close> when no file is at the given path.
\<close>

theorem read_local_config_ignores_path:
  "\<forall>l a b.
     read_local_config l [''my.json'' \<mapsto> a, ''config.json'' \<mapsto> b] ''my.json''
       = read_local_config l [''config.json'' \<mapsto> b] ''config.json''
     \<and> read_local_config l [''my.json'' \<mapsto> a] ''my.json'' = Inl FileNotFoundError
     \<and> read_local_config l Map.empty ''my.json'' = Inl RuntimeError"
  by (simp add: read_local_config_def)

text \<open>
  C8. \<^verbatim>\<open>get_config\<close> looks for \<^verbatim>\<open>config.json\<close> in the listing of \<^verbatim>\<open>gh-pages\<close>, not of the
  pages branch it is given. Called for the branch \<^verbatim>\<open>status\<close>, which holds a
  \<^verbatim>\<open>config.json\<close> that parses, while \<^verbatim>\<open>gh-pages\<close> holds none, it returns the defaults
  unmerged; called for a branch that holds no \<^verbatim>\<open>config.json\<close> while \<^verbatim>\<open>gh-pages\<close> lists
  one, it raises \<^verbatim>\<open>UnknownObjectException\<close>.
\<close>

theorem get_config_lists_gh_pages:
  "get_listing (two_branch_repo [''README.md'']) ''/'' ''status''
     = Inr [''config.json'', ''index.html'', ''template.html'']
   \<and> get_config ascii_lib (two_branch_repo [''README.md'']) ''status'' DEFAULT_CONFIG
     = (Inr DEFAULT_CONFIG, DEFAULT_CONFIG, [GetContents ''/'' ''gh-pages''])
   \<and> get_config ascii_lib (two_branch_repo [''config.json'']) ''status'' DEFAULT_CONFIG
     = (Inr (dict_update DEFAULT_CONFIG
               [(''title'', JStr ''Mine''), (''templates'', JArr [JStr ''extra.css''])]),
        dict_update DEFAULT_CONFIG
               [(''title'', JStr ''Mine''), (''templates'', JArr [JStr ''extra.css''])],
        [GetContents ''/'' ''gh-pages'', GetContents ''config.json'' ''status''])
   \<and> get_listing (two_branch_repo [''config.json'']) ''/'' ''other'' = Inl UnknownObjectException
   \<and> get_config ascii_lib (two_branch_repo [''config.json'']) ''other'' DEFAULT_CONFIG
     = (Inl UnknownObjectException, DEFAULT_CONFIG,
        [GetContents ''/'' ''gh-pages'', GetContents ''config.json'' ''other''])"
  by (simp add: get_config_def get_files_def two_branch_repo_def ascii_lib_def)

text \<open>
  C10. \<^verbatim>\<open>get_config\<close> returns the \<^verbatim>\<open>DEFAULT_CONFIG\<close> object itself, and a remote
  configuration that parses is merged into that object: afterwards the object holds the
  remote value for each remote key and its old value for every other key. Every later
  use reads the merged object: a later \<^verbatim>\<open>get_config\<close> that finds no \<^verbatim>\<open>config.json\<close>, or one
  that does not parse, returns it, and \<^verbatim>\<open>run_upgrade\<close> writes only templates of its
  \<^verbatim>\<open>templates\<close> entry.
\<close>

theorem get_config_mutates_defaults:
  assumes "get_listing repo ''/'' ''gh-pages'' = Inr files"
    and "''config.json'' \<in> set files"
    and "get_contents repo ''config.json'' bp = Inr f"
    and "lib_decode_utf8 l (file_bytes f) = Some page"
    and "lib_json_loads l page = Some rc"
    and "get_config l repo bp g = (r, g1, t)"
  shows "r = Inr g1 \<and> g1 = dict_update g rc
    \<and> (\<forall>l2 repo2 bp2 g2 c2 g3 t2. get_config l2 repo2 bp2 g2 = (Inr c2, g3, t2) \<longrightarrow> c2 = g3)
    \<and> (\<forall>k. map_of g1 k = (case map_of (rev rc) k of Some v \<Rightarrow> Some v | None \<Rightarrow> map_of g k))
    \<and> (\<forall>l2 repo2 bp2 files2.
          get_listing repo2 ''/'' ''gh-pages'' = Inr files2 \<and> ''config.json'' \<notin> set files2
          \<longrightarrow> fst (get_config l2 repo2 bp2 g1) = Inr g1)
    \<and> (\<forall>l2 repo2 bp2 files2 f2.
          get_listing repo2 ''/'' ''gh-pages'' = Inr files2 \<and> ''config.json'' \<in> set files2
          \<and> get_contents repo2 ''config.json'' bp2 = Inr f2
          \<and> (lib_decode_utf8 l2 (file_bytes f2) = None
             \<or> (\<exists>page2. lib_decode_utf8 l2 (file_bytes f2) = Some page2
                   \<and> lib_json_loads l2 page2 = None))
          \<longrightarrow> fst (get_config l2 repo2 bp2 g1) = Inr g1)
    \<and> (\<forall>l2 PY3 repo2 lt bp2 v ts.
          map_of g1 ''templates'' = Some v \<and> py_iter v = Inr ts
          \<longrightarrow> (\<forall>ev \<in> set (snd (run_upgrade l2 PY3 repo2 lt bp2 g1)).
                 is_write ev \<longrightarrow> JStr (write_path ev) \<in> set ts))"
proof -
  have m: "r = Inr g1 \<and> g1 = dict_update g rc"
    using get_config_merges [OF assms(1-5), of g] assms(6) by simp
  have k: "\<forall>k. map_of g1 k = (case map_of (rev rc) k of Some v \<Rightarrow> Some v | None \<Rightarrow> map_of g k)"
    using m by (simp add: map_of_dict_update)
  have a: "\<forall>l2 repo2 bp2 files2.
          get_listing repo2 ''/'' ''gh-pages'' = Inr files2 \<and> ''config.json'' \<notin> set files2
          \<longrightarrow> fst (get_config l2 repo2 bp2 g1) = Inr g1"
    by (simp add: get_config_absent)
  have u: "\<forall>l2 repo2 bp2 files2 f2.
          get_listing repo2 ''/'' ''gh-pages'' = Inr files2 \<and> ''config.json'' \<in> set files2
          \<and> get_contents repo2 ''config.json'' bp2 = Inr f2
          \<and> (lib_decode_utf8 l2 (file_bytes f2) = None
             \<or> (\<exists>page2. lib_decode_utf8 l2 (file_bytes f2) = Some page2
                   \<and> lib_json_loads l2 page2 = None))
          \<longrightarrow> fst (get_config l2 repo2 bp2 g1) = Inr g1"
    by (simp add: get_config_unparsable)
  have w: "\<forall>l2 PY3 repo2 lt bp2 v ts.
          map_of g1 ''templates'' = Some v \<and> py_iter v = Inr ts
          \<longrightarrow> (\<forall>ev \<in> set (snd (run_upgrade l2 PY3 repo2 lt bp2 g1)).
                 is_write ev \<longrightarrow> JStr (write_path ev) \<in> set ts)"
    using run_upgrade_writes by blast
  have o: "\<forall>l2 repo2 bp2 g2 c2 g3 t2. get_config l2 repo2 bp2 g2 = (Inr c2, g3, t2) \<longrightarrow> c2 = g3"
    using get_config_alias by blast
  from m o k a u w show ?thesis by blast
qed

theorem get_config_mutates_defaults_witness:
  "get_config ascii_lib (two_branch_repo [''config.json'']) ''status'' DEFAULT_CONFIG
     = (Inr (dict_update DEFAULT_CONFIG
          [(''title'', JStr ''Mine''), (''templates'', JArr [JStr ''extra.css''])]),
        (dict_update DEFAULT_CONFIG
          [(''title'', JStr ''Mine''), (''templates'', JArr [JStr ''extra.css''])]),
        [GetContents ''/'' ''gh-pages'', GetContents ''config.json'' ''status''])
   \<and> map_of DEFAULT_CONFIG ''title'' = Some (JStr ''Status'')
   \<and> map_of (dict_update DEFAULT_CONFIG
          [(''title'', JStr ''Mine''), (''templates'', JArr [JStr ''extra.css''])]) ''title'' = Some (JStr ''Mine'')
   \<and> fst (get_config ascii_lib (two_branch_repo [''README.md'']) ''status''
        (dict_update DEFAULT_CONFIG
          [(''title'', JStr ''Mine''), (''templates'', JArr [JStr ''extra.css''])]))
     = Inr (dict_update DEFAULT_CONFIG
          [(''title'', JStr ''Mine''), (''templates'', JArr [JStr ''extra.css''])])
   \<and> snd (run_upgrade ascii_lib True (two_branch_repo [''README.md''])
        [''extra.css'' \<mapsto> [0x61], ''template.html'' \<mapsto> [0x62]] ''status''
        (dict_update DEFAULT_CONFIG
          [(''title'', JStr ''Mine''), (''templates'', JArr [JStr ''extra.css''])]))
     = [Echo ''Upgrading...'', GetContents ''/'' ''gh-pages'', GetGitRef ''heads/status'',
        CreateFile ''extra.css'' ''upgrade'' [97] ''status'']"
proof -
  have e: "get_config ascii_lib (two_branch_repo [''config.json'']) ''status'' DEFAULT_CONFIG
     = (Inr (dict_update DEFAULT_CONFIG
          [(''title'', JStr ''Mine''), (''templates'', JArr [JStr ''extra.css''])]),
        (dict_update DEFAULT_CONFIG
          [(''title'', JStr ''Mine''), (''templates'', JArr [JStr ''extra.css''])]),
        [GetContents ''/'' ''gh-pages'', GetContents ''config.json'' ''status''])"
    by (simp add: get_config_def get_files_def two_branch_repo_def ascii_lib_def)
  have h1: "get_listing (two_branch_repo [''config.json'']) ''/'' ''gh-pages'' = Inr [''config.json'']"
    by (simp add: two_branch_repo_def)
  have h2: "''config.json'' \<in> set [''config.json'']"
    by simp
  have h3: "get_contents (two_branch_repo [''config.json'']) ''config.json'' ''status''
      = Inr \<lparr>file_sha = ''f1'', file_bytes = [0x7B, 0x22, 0x74, 0x69, 0x74, 0x6C, 0x65, 0x22, 0x3A, 0x22, 0x4D, 0x69, 0x6E, 0x65,
              0x22, 0x2C, 0x22, 0x74, 0x65, 0x6D, 0x70, 0x6C, 0x61, 0x74, 0x65, 0x73, 0x22, 0x3A,
              0x5B, 0x22, 0x65, 0x78, 0x74, 0x72, 0x61, 0x2E, 0x63, 0x73, 0x73, 0x22, 0x5D, 0x7D]\<rparr>"
    by (simp add: two_branch_repo_def)
  have h4: "lib_decode_utf8 ascii_lib
        (file_bytes \<lparr>file_sha = ''f1'', file_bytes = [0x7B, 0x22, 0x74, 0x69, 0x74, 0x6C, 0x65, 0x22, 0x3A, 0x22, 0x4D, 0x69, 0x6E, 0x65,
              0x22, 0x2C, 0x22, 0x74, 0x65, 0x6D, 0x70, 0x6C, 0x61, 0x74, 0x65, 0x73, 0x22, 0x3A,
              0x5B, 0x22, 0x65, 0x78, 0x74, 0x72, 0x61, 0x2E, 0x63, 0x73, 0x73, 0x22, 0x5D, 0x7D]\<rparr>)
      = Some [0x7B, 0x22, 0x74, 0x69, 0x74, 0x6C, 0x65, 0x22, 0x3A, 0x22, 0x4D, 0x69, 0x6E, 0x65,
              0x22, 0x2C, 0x22, 0x74, 0x65, 0x6D, 0x70, 0x6C, 0x61, 0x74, 0x65, 0x73, 0x22, 0x3A,
              0x5B, 0x22, 0x65, 0x78, 0x74, 0x72, 0x61, 0x2E, 0x63, 0x73, 0x73, 0x22, 0x5D, 0x7D]"
    by (simp add: ascii_lib_def)
  have h5: "lib_json_loads ascii_lib [0x7B, 0x22, 0x74, 0x69, 0x74, 0x6C, 0x65, 0x22, 0x3A, 0x22, 0x4D, 0x69, 0x6E, 0x65,
              0x22, 0x2C, 0x22, 0x74, 0x65, 0x6D, 0x70, 0x6C, 0x61, 0x74, 0x65, 0x73, 0x22, 0x3A,
              0x5B, 0x22, 0x65, 0x78, 0x74, 0x72, 0x61, 0x2E, 0x63, 0x73, 0x73, 0x22, 0x5D, 0x7D]
      = Some [(''title'', JStr ''Mine''), (''templates'', JArr [JStr ''extra.css''])]"
    by (simp add: ascii_lib_def)
  note T = get_config_mutates_defaults [OF h1 h2 h3 h4 h5 e]
  have t: "map_of DEFAULT_CONFIG ''title'' = Some (JStr ''Status'')"
    by (simp add: DEFAULT_CONFIG_def)
  have m: "map_of (dict_update DEFAULT_CONFIG
          [(''title'', JStr ''Mine''), (''templates'', JArr [JStr ''extra.css''])]) ''title'' = Some (JStr ''Mine'')"
    using T t by simp
  have l: "get_listing (two_branch_repo [''README.md'']) ''/'' ''gh-pages'' = Inr [''README.md'']"
    by (simp add: two_branch_repo_def)
  have a: "fst (get_config ascii_lib (two_branch_repo [''README.md'']) ''status''
        (dict_update DEFAULT_CONFIG
          [(''title'', JStr ''Mine''), (''templates'', JArr [JStr ''extra.css''])]))
     = Inr (dict_update DEFAULT_CONFIG
          [(''title'', JStr ''Mine''), (''templates'', JArr [JStr ''extra.css''])])"
    using T l by simp
  have g: "snd (run_upgrade ascii_lib True (two_branch_repo [''README.md''])
        [''extra.css'' \<mapsto> [0x61], ''template.html'' \<mapsto> [0x62]] ''status''
        (dict_update DEFAULT_CONFIG
          [(''title'', JStr ''Mine''), (''templates'', JArr [JStr ''extra.css''])]))
     = [Echo ''Upgrading...'', GetContents ''/'' ''gh-pages'', GetGitRef ''heads/status'',
        CreateFile ''extra.css'' ''upgrade'' [97] ''status'']"
    by (simp add: run_upgrade_def get_files_def two_branch_repo_def ascii_lib_def
        DEFAULT_CONFIG_def dict_update_def py_iter_def)
  from e t m a g show ?thesis by simp
qed

section \<open>Claims about the update\<close>



end
